theory Spec2Isabelle
  imports Main "HOL-Library.Sublist"
begin

section \<open>Data model\<close>

text \<open>
  The retrieval-identify-reformat pipeline is the function \<^verbatim>\<open>reportChain\<close>. It takes the
  document array and a \<^verbatim>\<open>DocConfig\<close> (the zod schema \<^verbatim>\<open>docConfigSchema\<close>: four strings).
\<close>

record DocConfig =
  docName :: string
  companyName :: string
  docType :: string
  reportType :: string

text \<open>
  A langchain \<^verbatim>\<open>Document\<close> carries \<^verbatim>\<open>pageContent\<close> and a \<^verbatim>\<open>metadata\<close> object. The chain
  reads four metadata keys. Each is an optional string here: \<open>None\<close> is JavaScript's
  \<^verbatim>\<open>undefined\<close> (the key is absent), \<open>Some s\<close> is the string \<open>s\<close>. This is the type the
  repository gives them (\<^verbatim>\<open>UnstructuredOutput.element_id: string\<close>, the string
  \<^verbatim>\<open>text_preview\<close> and \<^verbatim>\<open>filename\<close> written by \<^verbatim>\<open>uploadUnstructuredDocuments\<close>).
\<close>

record Metadata =
  element_id :: "string option"
  filename :: "string option"
  text_preview :: "string option"
  text_as_html :: "string option"

record Document =
  pageContent :: string
  metadata :: Metadata

text \<open>
  The value \<^verbatim>\<open>JSON.parse\<close> returns. Numbers are IEEE doubles in JavaScript; their
  representation is the type parameter \<open>'n\<close>. An object is the list of its own
  properties, keys distinct.
\<close>

datatype 'n json =
    JNull
  | JBool bool
  | JNum 'n
  | JStr string
  | JArr "'n json list"
  | JObj "(string \<times> 'n json) list"

text \<open>
  What the chain can throw: an \<^verbatim>\<open>Error\<close> with its message (raised by \<^verbatim>\<open>createStore\<close> or
  by an external client), the \<^verbatim>\<open>SyntaxError\<close> of \<^verbatim>\<open>JSON.parse\<close>, recorded with the text
  that failed to parse, or the \<^verbatim>\<open>TypeError\<close> of a conversion to a primitive value.
\<close>

datatype error = Error string | SyntaxError string | TypeError string

text \<open>The outbound calls of one run, in order: the retriever's query, the model's prompt.\<close>

datatype call = Retrieve string | Complete string

text \<open>
  The external collaborators. \<open>'w\<close> is the state of the outside world (the vector index,
  the model service): each client call reads it and returns the next one, so that a
  client may answer differently from one call to the next. \<open>llm_invoke\<close> returns the
  text of the model's message, which is what the \<^verbatim>\<open>StringOutputParser\<close> of steps 6 and
  10 extracts from it. \<^verbatim>\<open>JSON.parse\<close> is the
  runtime's parser, \<open>None\<close> when it throws. The last three fields are the runtime's
  number operations that loose equality and \<^verbatim>\<open>Array.prototype.toString\<close> use:
  whether \<^verbatim>\<open>ToNumber\<close> of a string equals a number, \<^verbatim>\<open>ToNumber\<close> of a boolean, and
  \<^verbatim>\<open>ToString\<close> of a number.
\<close>

record ('w, 'n) clients =
  PINECONE_INDEX :: "string option"
  retriever_invoke :: "string \<Rightarrow> 'w \<Rightarrow> (error + Document list) \<times> 'w"
  llm_invoke :: "string \<Rightarrow> 'w \<Rightarrow> (error + string) \<times> 'w"
  JSON_parse :: "string \<Rightarrow> 'n json option"
  string_eq_number :: "string \<Rightarrow> 'n \<Rightarrow> bool"
  number_of_boolean :: "bool \<Rightarrow> 'n"
  number_toString :: "'n \<Rightarrow> string"

section \<open>Strings\<close>

definition nl :: string where
  "nl = [CHR 0x0A]"

text \<open>Decimal rendering of \<^verbatim>\<open>index + 1\<close> inside a template literal.\<close>

fun show_nat :: "nat \<Rightarrow> string" where
  "show_nat n =
     (if n < 10 then [''0123456789'' ! n]
      else show_nat (n div 10) @ [''0123456789'' ! (n mod 10)])"

text \<open>\<^verbatim>\<open>Array.prototype.join\<close> on an array of strings.\<close>

fun join :: "string \<Rightarrow> string list \<Rightarrow> string" where
  "join sep [] = []"
| "join sep [x] = x"
| "join sep (x # y # ys) = x @ sep @ join sep (y # ys)"

text \<open>
  A string-or-undefined value placed in a template literal (\<^verbatim>\<open>${v}\<close>) or substituted
  for a variable of a \<^verbatim>\<open>PromptTemplate\<close>: a string is copied as it is, \<^verbatim>\<open>undefined\<close>
  becomes the text \<^verbatim>\<open>undefined\<close>.
\<close>

definition interpolate :: "string option \<Rightarrow> string" where
  "interpolate v = (case v of None \<Rightarrow> ''undefined'' | Some s \<Rightarrow> s)"

text \<open>\<^verbatim>\<open>v || 'unknown'\<close>: \<^verbatim>\<open>undefined\<close> and the empty string are falsy.\<close>

definition or_unknown :: "string option \<Rightarrow> string" where
  "or_unknown v = (case v of None \<Rightarrow> ''unknown'' | Some s \<Rightarrow> if s = [] then ''unknown'' else s)"

text \<open>Whether \<open>xs\<close> occurs in \<open>ys\<close> as a contiguous run of characters.\<close>

fun contains :: "string \<Rightarrow> string \<Rightarrow> bool" where
  "contains xs [] = (xs = [])"
| "contains xs (y # ys) = (prefix xs (y # ys) \<or> contains xs ys)"

section \<open>JavaScript values\<close>

text \<open>Property read \<^verbatim>\<open>v?.key\<close> on a parsed JSON value; \<open>None\<close> is \<^verbatim>\<open>undefined\<close>.\<close>

fun js_get :: "'n json \<Rightarrow> string \<Rightarrow> 'n json option" where
  "js_get (JObj kvs) key = map_of kvs key"
| "js_get v key = None"

text \<open>
  \<^verbatim>\<open>ToString\<close> of a parsed JSON value. An array joins its elements with a comma, where
  \<^verbatim>\<open>null\<close> contributes the empty string. An object becomes \<^verbatim>\<open>[object Object]\<close>, unless
  it has an own property \<^verbatim>\<open>toString\<close>: a parsed JSON value is never callable, so the
  conversion finds no method that yields a primitive and throws a \<^verbatim>\<open>TypeError\<close>.
\<close>

fun js_toString :: "('w, 'n) clients \<Rightarrow> 'n json \<Rightarrow> error + string"
  and elements_toString :: "('w, 'n) clients \<Rightarrow> 'n json list \<Rightarrow> error + string list" where
  "js_toString cl JNull = Inr ''null''"
| "js_toString cl (JBool b) = Inr (if b then ''true'' else ''false'')"
| "js_toString cl (JNum n) = Inr (number_toString cl n)"
| "js_toString cl (JStr s) = Inr s"
| "js_toString cl (JArr vs) =
     (case elements_toString cl vs of
        Inl e \<Rightarrow> Inl e
      | Inr ss \<Rightarrow> Inr (join '','' ss))"
| "js_toString cl (JObj kvs) =
     (if ''toString'' \<in> set (map fst kvs)
      then Inl (TypeError ''Cannot convert object to primitive value'')
      else Inr ''[object Object]'')"
| "elements_toString cl [] = Inr []"
| "elements_toString cl (v # vs) =
     (case (case v of JNull \<Rightarrow> Inr [] | _ \<Rightarrow> js_toString cl v) of
        Inl e \<Rightarrow> Inl e
      | Inr s \<Rightarrow>
          (case elements_toString cl vs of
             Inl e \<Rightarrow> Inl e
           | Inr ss \<Rightarrow> Inr (s # ss)))"

text \<open>
  \<^verbatim>\<open>doc.metadata.element_id == docMatchID\<close>: loose equality of a string-or-undefined
  (left) with a JSON-value-or-undefined (right). A string is compared with an array or
  an object through the conversion of that value to a string, which may throw.
\<close>

fun loose_eq :: "('w, 'n) clients \<Rightarrow> string option \<Rightarrow> 'n json option \<Rightarrow> error + bool" where
  "loose_eq cl None None = Inr True"
| "loose_eq cl None (Some JNull) = Inr True"
| "loose_eq cl None (Some v) = Inr False"
| "loose_eq cl (Some s) None = Inr False"
| "loose_eq cl (Some s) (Some JNull) = Inr False"
| "loose_eq cl (Some s) (Some (JStr t)) = Inr (s = t)"
| "loose_eq cl (Some s) (Some (JNum n)) = Inr (string_eq_number cl s n)"
| "loose_eq cl (Some s) (Some (JBool b)) = Inr (string_eq_number cl s (number_of_boolean cl b))"
| "loose_eq cl (Some s) (Some (JArr vs)) =
     (case js_toString cl (JArr vs) of Inl e \<Rightarrow> Inl e | Inr t \<Rightarrow> Inr (s = t))"
| "loose_eq cl (Some s) (Some (JObj kvs)) =
     (case js_toString cl (JObj kvs) of Inl e \<Rightarrow> Inl e | Inr t \<Rightarrow> Inr (s = t))"

section \<open>The steps of the chain\<close>

text \<open>
  \<^verbatim>\<open>PineconeService.createStore\<close>, called with no argument: it throws when the
  environment variable is unset or empty. The constructors of the external clients
  (\<^verbatim>\<open>Pinecone\<close>, \<^verbatim>\<open>OpenAIEmbeddings\<close>, \<^verbatim>\<open>ChatOpenAI\<close>) are taken to succeed.
\<close>

definition createStore :: "('w, 'n) clients \<Rightarrow> error + unit" where
  "createStore cl =
     (case PINECONE_INDEX cl of
        None \<Rightarrow> Inl (Error ''No Pinecone index specified. Provide an index name or set PINECONE_INDEX environment variable.'')
      | Some index \<Rightarrow>
          if index = []
          then Inl (Error ''No Pinecone index specified. Provide an index name or set PINECONE_INDEX environment variable.'')
          else Inr ())"

text \<open>Step 1: the search template, formatted with three fields of the input.\<close>

definition searchTemplate_format :: "string \<Rightarrow> string \<Rightarrow> string \<Rightarrow> string" where
  "searchTemplate_format companyName' reportType' docType' =
     ''What is '' @ companyName' @ ''s '' @ reportType' @ '' for their '' @ docType' @ '' statement?''"

definition step1 :: "DocConfig \<Rightarrow> string" where
  "step1 input = searchTemplate_format (companyName input) (reportType input) (docType input)"

text \<open>Step 3: one block of text per retrieved document, joined by a blank line.\<close>

definition formatDoc :: "nat \<Rightarrow> Document \<Rightarrow> string" where
  "formatDoc index doc =
     ''Document '' @ show_nat (index + 1) @ '':'' @ nl @
     ''- Element ID: '' @ or_unknown (element_id (metadata doc)) @ nl @
     ''- Source/Filename: '' @ or_unknown (filename (metadata doc)) @ nl @
     ''- Content snippet: '' @ interpolate (text_preview (metadata doc)) @ ''...''"

definition step3 :: "Document list \<Rightarrow> string" where
  "step3 docs = join (nl @ nl) (map (\<lambda>(index, doc). formatDoc index doc) (enumerate 0 docs))"

text \<open>Step 4: the disambiguation prompt.\<close>

definition idImprovedTemplate_format :: "string \<Rightarrow> string \<Rightarrow> string \<Rightarrow> string \<Rightarrow> string" where
  \<open>idImprovedTemplate_format formattedDocs reportType' companyName' docType' =
     ''You are responsible for identifying which document from the returned results is likely to be the '' @ reportType' @ '' '' @ nl @
     ''    from '' @ companyName' @ ''\'s '' @ docType' @ ''.'' @ nl @
     nl @
     ''    Below are the documents that were retrieved:'' @ nl @
     nl @
     ''    '' @ formattedDocs @ nl @
     nl @
     ''    Please identify which document contains the '' @ reportType' @ '' for '' @ companyName' @ ''\'s '' @ docType' @ ''.'' @ nl @
     ''    Return your answer as a JSON object with the following format:'' @ nl @
     nl @
     ''    {'' @ nl @
     ''      "element_id": "the element_id of the identified document",'' @ nl @
     ''      "filename": "the source/filename of the identified document"'' @ nl @
     ''    }'' @ nl @
     nl @
     ''    Return ONLY the JSON with no markdown formatting, no +""+ json blocks, and no additional text before or after the JSON.'' @ nl @
     ''    Make sure to include the exact element_id and source/filename from the metadata of the document you identify.''\<close>

definition step4 :: "DocConfig \<Rightarrow> string \<Rightarrow> string" where
  "step4 docConfig formattedDocs =
     idImprovedTemplate_format formattedDocs (reportType docConfig) (companyName docConfig) (docType docConfig)"

text \<open>
  Step 7: \<^verbatim>\<open>docArray.find\<close> returns the first document of the document array whose
  \<^verbatim>\<open>element_id\<close> loosely equals the model's \<^verbatim>\<open>element_id\<close>, and \<^verbatim>\<open>undefined\<close> when there
  is none; a comparison that throws ends the search with its error. The content is the
  \<^verbatim>\<open>text_as_html\<close> of the match, and optional chaining makes it \<^verbatim>\<open>undefined\<close> when no
  document matches.
\<close>

fun find_doc :: "('w, 'n) clients \<Rightarrow> 'n json option \<Rightarrow> Document list \<Rightarrow> error + Document option" where
  "find_doc cl docMatchID [] = Inr None"
| "find_doc cl docMatchID (doc # rest) =
     (case loose_eq cl (element_id (metadata doc)) docMatchID of
        Inl e \<Rightarrow> Inl e
      | Inr b \<Rightarrow> if b then Inr (Some doc) else find_doc cl docMatchID rest)"

definition matchedDoc :: "('w, 'n) clients \<Rightarrow> Document list \<Rightarrow> 'n json \<Rightarrow> error + Document option" where
  "matchedDoc cl docArray result = find_doc cl (js_get result ''element_id'') docArray"

definition step7 :: "('w, 'n) clients \<Rightarrow> Document list \<Rightarrow> 'n json \<Rightarrow> error + string option" where
  "step7 cl docArray result =
     (case matchedDoc cl docArray result of
        Inl e \<Rightarrow> Inl e
      | Inr None \<Rightarrow> Inr None
      | Inr (Some doc) \<Rightarrow> Inr (text_as_html (metadata doc)))"

text \<open>
  Step 8: the reformatting prompt. The context object always has the key
  \<^verbatim>\<open>tableContent\<close>, also when its value is \<^verbatim>\<open>undefined\<close>, so the template is rendered
  in every case.
\<close>

definition htmlFormattingTemplate_format :: "string option \<Rightarrow> string" where
  \<open>htmlFormattingTemplate_format tableContent =
     ''You are a system responsible for formatting html tables, you will be passed html-like content that contains formatting issues'' @ nl @
     ''    your role is to assess the content provided, identify mistakes, and improve / enrich the formatting while staying as critically accurate to the underlying data'' @ nl @
     ''    given in the tables'' @ nl @
     nl @
     ''    Below are is the provided table content: '' @ nl @
     nl @
     ''    '' @ interpolate tableContent @ nl @
     nl @
     ''    Return your answer as a JSON object with the following format: '' @ nl @
     nl @
     ''    {'' @ nl @
     ''      "reformatted_content": "your output improved html-formatted content" '' @ nl @
     ''    }'' @ nl @
     nl @
     ''    Return ONLY the JSON with no markdown formatting, no +""+ json blocks, and no additional text before or after the JSON.'' @ nl @
     ''    Make sure to include the exact element_id and source/filename from the metadata of the document you identify.''\<close>

section \<open>The chain\<close>

text \<open>
  The chain from step 8 on: the reformatting prompt, the second model call (step 9), its
  text (step 10) and the final \<^verbatim>\<open>JSON.parse\<close>, whose value is returned as it is. \<open>cs\<close>
  are the calls made so far.
\<close>

definition chain_from_step8 :: "('w, 'n) clients \<Rightarrow> call list \<Rightarrow> string option \<Rightarrow> 'w
    \<Rightarrow> (error + 'n json) \<times> call list \<times> 'w" where
  "chain_from_step8 cl cs tableContent w =
     (let formattedPrompt = htmlFormattingTemplate_format tableContent in
      case llm_invoke cl formattedPrompt w of
        (Inl e, w') \<Rightarrow> (Inl e, cs @ [Complete formattedPrompt], w')
      | (Inr result, w') \<Rightarrow>
          (case JSON_parse cl result of
             None \<Rightarrow> (Inl (SyntaxError result), cs @ [Complete formattedPrompt], w')
           | Some jsonResult \<Rightarrow> (Inr jsonResult, cs @ [Complete formattedPrompt], w')))"

text \<open>
  The chain from step 4 on: the disambiguation prompt, the first model call (step 5),
  the parse of its answer (step 6), the match against the document array (step 7, whose
  \<^verbatim>\<open>catch\<close> rethrows), then the rest of the chain.
\<close>

definition chain_from_step4 :: "('w, 'n) clients \<Rightarrow> Document list \<Rightarrow> DocConfig \<Rightarrow> call list
    \<Rightarrow> Document list \<Rightarrow> 'w \<Rightarrow> (error + 'n json) \<times> call list \<times> 'w" where
  "chain_from_step4 cl docArray docConfig cs docs w =
     (let prompt = step4 docConfig (step3 docs) in
      case llm_invoke cl prompt w of
        (Inl e, w') \<Rightarrow> (Inl e, cs @ [Complete prompt], w')
      | (Inr response, w') \<Rightarrow>
          (case JSON_parse cl response of
             None \<Rightarrow> (Inl (SyntaxError response), cs @ [Complete prompt], w')
           | Some result \<Rightarrow>
               (case step7 cl docArray result of
                  Inl e \<Rightarrow> (Inl e, cs @ [Complete prompt], w')
                | Inr tableContent \<Rightarrow>
                    chain_from_step8 cl (cs @ [Complete prompt]) tableContent w')))"

text \<open>
  \<^verbatim>\<open>reportChain\<close>: the store is created, then the ten steps run in sequence; the first
  error thrown ends the run (the \<^verbatim>\<open>catch\<close> block logs and rethrows it). The result
  is the outcome, the outbound calls made, and the state of the outside world after
  the run. Console output is not part of the model.
\<close>

definition reportChain :: "('w, 'n) clients \<Rightarrow> Document list \<Rightarrow> DocConfig \<Rightarrow> 'w
    \<Rightarrow> (error + 'n json) \<times> call list \<times> 'w" where
  "reportChain cl docArray docConfig w =
     (case createStore cl of
        Inl e \<Rightarrow> (Inl e, [], w)
      | Inr u \<Rightarrow>
          (let query = step1 docConfig in
           case retriever_invoke cl query w of
             (Inl e, w') \<Rightarrow> (Inl e, [Retrieve query], w')
           | (Inr docs, w') \<Rightarrow> chain_from_step4 cl docArray docConfig [Retrieve query] docs w'))"

definition outcome :: "(error + 'n json) \<times> call list \<times> 'w \<Rightarrow> error + 'n json" where
  "outcome r = fst r"

definition calls :: "(error + 'n json) \<times> call list \<times> 'w \<Rightarrow> call list" where
  "calls r = fst (snd r)"

definition world :: "(error + 'n json) \<times> call list \<times> 'w \<Rightarrow> 'w" where
  "world r = snd (snd r)"

section \<open>Notions used in the statements\<close>

text \<open>
  Exact equality (\<^verbatim>\<open>===\<close>) of a string-or-undefined with a JSON-value-or-undefined: both
  are the same string, or both are \<^verbatim>\<open>undefined\<close>.
\<close>

fun exact_eq :: "string option \<Rightarrow> 'n json option \<Rightarrow> bool" where
  "exact_eq None None = True"
| "exact_eq (Some s) (Some (JStr t)) = (s = t)"
| "exact_eq a b = False"

text \<open>A stubbed client is deterministic when its answer depends on the request only, not on the state of the outside world.\<close>

definition deterministic :: "('w, 'n) clients \<Rightarrow> bool" where
  "deterministic cl \<longleftrightarrow>
     (\<forall>query w w'. fst (retriever_invoke cl query w) = fst (retriever_invoke cl query w')) \<and>
     (\<forall>prompt w w'. fst (llm_invoke cl prompt w) = fst (llm_invoke cl prompt w'))"

section \<open>Stubbed clients for the end-to-end scenarios\<close>

text \<open>
  The element of scenario A as it is in the document array (with its table markup), and
  as the vector index returns it (with a text preview, without the markup).
\<close>

definition table_markup :: string where
  "table_markup = ''<table><tr><td>Total Assets</td><td>500</td></tr></table>''"

definition docE1 :: Document where
  "docE1 = \<lparr>pageContent = ''Total Assets 500'',
     metadata = \<lparr>element_id = Some ''e1'', filename = Some ''f.pdf'', text_preview = None,
       text_as_html = Some table_markup\<rparr>\<rparr>"

definition candE1 :: Document where
  "candE1 = \<lparr>pageContent = ''Total Assets 500'',
     metadata = \<lparr>element_id = Some ''e1'', filename = Some ''f.pdf'',
       text_preview = Some ''Total Assets 500'', text_as_html = None\<rparr>\<rparr>"

text \<open>Another element of the document array, which the index does not return.\<close>

definition docE0 :: Document where
  "docE0 = \<lparr>pageContent = ''Cover page'',
     metadata = \<lparr>element_id = Some ''e0'', filename = Some ''f.pdf'', text_preview = None,
       text_as_html = None\<rparr>\<rparr>"

text \<open>The same element with no \<^verbatim>\<open>text_as_html\<close> key, and with an empty one.\<close>

definition docE1_absent :: Document where
  "docE1_absent = docE1\<lparr>metadata := (metadata docE1)\<lparr>text_as_html := None\<rparr>\<rparr>"

definition docE1_empty :: Document where
  "docE1_empty = docE1\<lparr>metadata := (metadata docE1)\<lparr>text_as_html := Some []\<rparr>\<rparr>"

definition hood :: DocConfig where
  "hood = \<lparr>docName = ''hood-10Q.pdf.json'', companyName = ''Robinhood'', docType = ''10-Q'',
     reportType = ''Balance Sheet''\<rparr>"

text \<open>Answers of the stubbed model.\<close>

definition answer_e1 :: string where
  \<open>answer_e1 = ''{"element_id":"e1","filename":"f.pdf"}''\<close>

definition answer_zzz :: string where
  \<open>answer_zzz = ''{"element_id":"zzz","filename":"f.pdf"}''\<close>

definition answer_array :: string where
  \<open>answer_array = ''{"element_id":["e1"],"filename":"f.pdf"}''\<close>

definition answer_prose :: string where
  \<open>answer_prose = ''The balance sheet is in document 1.''\<close>

definition answer_table :: string where
  \<open>answer_table = ''{"reformatted_content":"<table><tr><td>Total Assets</td><td>500</td></tr></table>"}''\<close>

definition answer_empty_object :: string where
  \<open>answer_empty_object = ''{}''\<close>

text \<open>
  \<^verbatim>\<open>JSON.parse\<close> on the answers above: the five JSON texts parse to the objects they
  denote, the prose throws. The stub is applied to these six texts only.
\<close>

definition decision_e1 :: "unit json" where
  "decision_e1 = JObj [(''element_id'', JStr ''e1''), (''filename'', JStr ''f.pdf'')]"

definition decision_zzz :: "unit json" where
  "decision_zzz = JObj [(''element_id'', JStr ''zzz''), (''filename'', JStr ''f.pdf'')]"

definition decision_array :: "unit json" where
  "decision_array = JObj [(''element_id'', JArr [JStr ''e1'']), (''filename'', JStr ''f.pdf'')]"

definition result_table :: "unit json" where
  "result_table = JObj [(''reformatted_content'', JStr table_markup)]"

definition stub_parse :: "string \<Rightarrow> unit json option" where
  "stub_parse = map_of
     [(answer_e1, decision_e1),
      (answer_zzz, decision_zzz),
      (answer_array, decision_array),
      (answer_table, result_table),
      (answer_empty_object, JObj [])]"

text \<open>
  Stubbed clients: the index returns \<open>retrieved\<close> for every query; the model returns
  \<open>answer1\<close> to a disambiguation prompt and \<open>answer2\<close> to any other prompt. The state of
  the outside world is the number of calls received. No number occurs in the answers,
  so the three number operations are never consulted.
\<close>

definition stub :: "Document list \<Rightarrow> string \<Rightarrow> string \<Rightarrow> (nat, unit) clients" where
  "stub retrieved answer1 answer2 =
     \<lparr>PINECONE_INDEX = Some ''filings'',
      retriever_invoke = (\<lambda>query w. (Inr retrieved, Suc w)),
      llm_invoke = (\<lambda>prompt w.
        (Inr (if take 19 prompt = ''You are responsible'' then answer1 else answer2), Suc w)),
      JSON_parse = stub_parse,
      string_eq_number = (\<lambda>s n. False),
      number_of_boolean = (\<lambda>b. ()),
      number_toString = (\<lambda>n. ''0'')\<rparr>"

section \<open>Auxiliary facts\<close>

lemma contains_iff: "contains xs ys \<longleftrightarrow> (\<exists>p s. ys = p @ xs @ s)"
proof (induction ys)
  case Nil
  show ?case by auto
next
  case (Cons y ys)
  show ?case
  proof
    assume c: "contains xs (y # ys)"
    show "\<exists>p s. y # ys = p @ xs @ s"
    proof (cases "prefix xs (y # ys)")
      case True
      then obtain s where "y # ys = xs @ s" by (auto simp: prefix_def)
      then have "y # ys = [] @ xs @ s" by simp
      then show ?thesis by blast
    next
      case False
      with c have "contains xs ys" by simp
      with Cons obtain p s where "ys = p @ xs @ s" by blast
      then have "y # ys = (y # p) @ xs @ s" by simp
      then show ?thesis by blast
    qed
  next
    assume "\<exists>p s. y # ys = p @ xs @ s"
    then obtain p s where e: "y # ys = p @ xs @ s" by blast
    show "contains xs (y # ys)"
    proof (cases p)
      case Nil
      with e have "prefix xs (y # ys)" by (metis append_Nil prefixI)
      then show ?thesis by simp
    next
      case (Cons a p')
      with e have "ys = p' @ xs @ s" by simp
      with Cons.IH show ?thesis by auto
    qed
  qed
qed

lemma contains_append_mid: "contains xs (p @ xs @ s)"
  by (auto simp: contains_iff)

lemma reportChain_retrieved:
  assumes "createStore cl = Inr ()"
    and "retriever_invoke cl (step1 docConfig) w = (Inr docs, w1)"
  shows "reportChain cl docArray docConfig w =
           chain_from_step4 cl docArray docConfig [Retrieve (step1 docConfig)] docs w1"
  using assms by (simp add: reportChain_def)

lemma select_parsed:
  assumes "llm_invoke cl (step4 docConfig (step3 docs)) w1 = (Inr response, w2)"
    and "JSON_parse cl response = Some result"
    and "step7 cl docArray result = Inr tableContent"
  shows "chain_from_step4 cl docArray docConfig cs docs w1 =
           chain_from_step8 cl (cs @ [Complete (step4 docConfig (step3 docs))]) tableContent w2"
  using assms by (simp add: chain_from_step4_def)

lemma select_unparsed:
  assumes "llm_invoke cl (step4 docConfig (step3 docs)) w1 = (Inr response, w2)"
    and "JSON_parse cl response = None"
  shows "chain_from_step4 cl docArray docConfig cs docs w1 =
           (Inl (SyntaxError response), cs @ [Complete (step4 docConfig (step3 docs))], w2)"
  using assms by (simp add: chain_from_step4_def)

lemma reportChain_parsed:
  assumes "createStore cl = Inr ()"
    and "retriever_invoke cl (step1 docConfig) w = (Inr docs, w1)"
    and "llm_invoke cl (step4 docConfig (step3 docs)) w1 = (Inr response, w2)"
    and "JSON_parse cl response = Some result"
    and "step7 cl docArray result = Inr tableContent"
  shows "reportChain cl docArray docConfig w =
           chain_from_step8 cl [Retrieve (step1 docConfig), Complete (step4 docConfig (step3 docs))]
             tableContent w2"
  using assms by (simp add: reportChain_retrieved select_parsed)

lemma calls_reformat:
  "calls (chain_from_step8 cl cs tableContent w) = cs @ [Complete (htmlFormattingTemplate_format tableContent)]"
  by (simp add: chain_from_step8_def calls_def Let_def split: prod.splits sum.splits option.splits)

lemma calls_select_prefix:
  "take (Suc (length cs)) (calls (chain_from_step4 cl docArray docConfig cs docs w)) =
     cs @ [Complete (step4 docConfig (step3 docs))]"
  by (simp add: chain_from_step4_def calls_def chain_from_step8_def Let_def split: prod.splits sum.splits option.splits)

lemma reformat_answered:
  assumes "llm_invoke cl (htmlFormattingTemplate_format tableContent) w = (Inr r, w')"
  shows "outcome (chain_from_step8 cl cs tableContent w) =
           (case JSON_parse cl r of None \<Rightarrow> Inl (SyntaxError r) | Some jsonResult \<Rightarrow> Inr jsonResult)"
  using assms by (simp add: chain_from_step8_def outcome_def split: option.splits)

lemma undefined_in_prompt:
  "htmlFormattingTemplate_format None = htmlFormattingTemplate_format (Some ''undefined'')"
  by (simp add: htmlFormattingTemplate_format_def interpolate_def)

lemma loose_eq_string:
  "loose_eq cl a (Some (JStr s)) = Inr (a = Some s)"
  by (cases a) auto

lemma find_doc_string:
  "find_doc cl (Some (JStr s)) docArray = Inr (find (\<lambda>doc. element_id (metadata doc) = Some s) docArray)"
  by (induction docArray) (simp_all add: loose_eq_string)

subsection \<open>Determinism of the chain over deterministic clients\<close>

lemma reformat_deterministic:
  assumes "deterministic cl"
  shows "outcome (chain_from_step8 cl cs tableContent w) = outcome (chain_from_step8 cl cs tableContent w') \<and>
         calls (chain_from_step8 cl cs tableContent w) = calls (chain_from_step8 cl cs tableContent w')"
proof -
  let ?p = "htmlFormattingTemplate_format tableContent"
  obtain a x where 1: "llm_invoke cl ?p w = (a, x)"
    by (cases "llm_invoke cl ?p w")
  obtain a' x' where 2: "llm_invoke cl ?p w' = (a', x')"
    by (cases "llm_invoke cl ?p w'")
  have "fst (llm_invoke cl ?p w) = fst (llm_invoke cl ?p w')"
    using assms unfolding deterministic_def by blast
  with 1 2 have "a' = a" by simp
  with 1 2 show ?thesis
    by (simp add: chain_from_step8_def outcome_def calls_def Let_def split: sum.splits option.splits)
qed

lemma select_deterministic:
  assumes "deterministic cl"
  shows "outcome (chain_from_step4 cl docArray docConfig cs docs w) = outcome (chain_from_step4 cl docArray docConfig cs docs w') \<and>
         calls (chain_from_step4 cl docArray docConfig cs docs w) = calls (chain_from_step4 cl docArray docConfig cs docs w')"
proof -
  let ?p = "step4 docConfig (step3 docs)"
  obtain a x where 1: "llm_invoke cl ?p w = (a, x)"
    by (cases "llm_invoke cl ?p w")
  obtain a' x' where 2: "llm_invoke cl ?p w' = (a', x')"
    by (cases "llm_invoke cl ?p w'")
  have "fst (llm_invoke cl ?p w) = fst (llm_invoke cl ?p w')"
    using assms unfolding deterministic_def by blast
  with 1 2 have e: "a' = a" by simp
  show ?thesis
  proof (cases a)
    case (Inl err)
    with 1 2 e show ?thesis
      by (simp add: chain_from_step4_def outcome_def calls_def)
  next
    case (Inr response)
    show ?thesis
    proof (cases "JSON_parse cl response")
      case None
      with 1 2 e Inr show ?thesis
        by (simp add: chain_from_step4_def outcome_def calls_def)
    next
      case (Some result)
      show ?thesis
      proof (cases "step7 cl docArray result")
        case (Inl err)
        with 1 2 e Inr Some show ?thesis
          by (simp add: chain_from_step4_def outcome_def calls_def)
      next
        case content: (Inr tableContent)
        have "chain_from_step4 cl docArray docConfig cs docs w =
            chain_from_step8 cl (cs @ [Complete ?p]) tableContent x"
          using 1 Inr Some content by (simp add: chain_from_step4_def)
        moreover have "chain_from_step4 cl docArray docConfig cs docs w' =
            chain_from_step8 cl (cs @ [Complete ?p]) tableContent x'"
          using 2 e Inr Some content by (simp add: chain_from_step4_def)
        ultimately show ?thesis
          using reformat_deterministic [OF assms] by simp
      qed
    qed
  qed
qed

lemma reportChain_deterministic:
  assumes "deterministic cl"
  shows "outcome (reportChain cl docArray docConfig w) = outcome (reportChain cl docArray docConfig w') \<and>
         calls (reportChain cl docArray docConfig w) = calls (reportChain cl docArray docConfig w')"
proof (cases "createStore cl")
  case (Inl err)
  then show ?thesis
    by (simp add: reportChain_def outcome_def calls_def)
next
  case (Inr u)
  let ?q = "step1 docConfig"
  obtain a x where 1: "retriever_invoke cl ?q w = (a, x)"
    by (cases "retriever_invoke cl ?q w")
  obtain a' x' where 2: "retriever_invoke cl ?q w' = (a', x')"
    by (cases "retriever_invoke cl ?q w'")
  have "fst (retriever_invoke cl ?q w) = fst (retriever_invoke cl ?q w')"
    using assms unfolding deterministic_def by blast
  with 1 2 have e: "a' = a" by simp
  show ?thesis
  proof (cases a)
    case (Inl err)
    with 1 2 e Inr show ?thesis
      by (simp add: reportChain_def outcome_def calls_def)
  next
    case docs: (Inr docs)
    have "reportChain cl docArray docConfig w = chain_from_step4 cl docArray docConfig [Retrieve ?q] docs x"
      using 1 Inr docs by (simp add: reportChain_def)
    moreover have "reportChain cl docArray docConfig w' = chain_from_step4 cl docArray docConfig [Retrieve ?q] docs x'"
      using 2 e Inr docs by (simp add: reportChain_def)
    ultimately show ?thesis
      using select_deterministic [OF assms] by simp
  qed
qed

subsection \<open>The stubbed clients\<close>

lemma stub_simps:
  "createStore (stub retrieved a1 a2) = Inr ()"
  "retriever_invoke (stub retrieved a1 a2) query w = (Inr retrieved, Suc w)"
  "llm_invoke (stub retrieved a1 a2) (step4 docConfig formattedDocs) w = (Inr a1, Suc w)"
  "llm_invoke (stub retrieved a1 a2) (htmlFormattingTemplate_format tableContent) w = (Inr a2, Suc w)"
  "JSON_parse (stub retrieved a1 a2) = stub_parse"
  by (simp_all add: stub_def createStore_def step4_def idImprovedTemplate_format_def
      htmlFormattingTemplate_format_def)

lemma stub_parse_simps:
  "stub_parse answer_e1 = Some decision_e1"
  "stub_parse answer_zzz = Some decision_zzz"
  "stub_parse answer_array = Some decision_array"
  "stub_parse answer_table = Some result_table"
  "stub_parse answer_empty_object = Some (JObj [])"
  "stub_parse answer_prose = None"
  by (simp_all add: stub_parse_def answer_e1_def answer_zzz_def answer_array_def answer_table_def
      answer_empty_object_def answer_prose_def)

lemma stub_deterministic: "deterministic (stub retrieved a1 a2)"
  by (simp add: deterministic_def stub_def)

lemma stub_run:
  "reportChain (stub retrieved a1 a2) docArray docConfig w =
     (case stub_parse a1 of
        None \<Rightarrow> (Inl (SyntaxError a1),
                 [Retrieve (step1 docConfig), Complete (step4 docConfig (step3 retrieved))], Suc (Suc w))
      | Some result \<Rightarrow>
          (case step7 (stub retrieved a1 a2) docArray result of
             Inl e \<Rightarrow> (Inl e,
                 [Retrieve (step1 docConfig), Complete (step4 docConfig (step3 retrieved))], Suc (Suc w))
           | Inr tableContent \<Rightarrow>
               (case stub_parse a2 of
                  None \<Rightarrow> Inl (SyntaxError a2)
                | Some jsonResult \<Rightarrow> Inr jsonResult,
                [Retrieve (step1 docConfig), Complete (step4 docConfig (step3 retrieved)),
                 Complete (htmlFormattingTemplate_format tableContent)],
                Suc (Suc (Suc w)))))"
  by (simp add: reportChain_def chain_from_step4_def chain_from_step8_def stub_simps split: option.splits sum.splits)

lemma matchedDoc_stub:
  "matchedDoc (stub retrieved a1 a2) [docE1] decision_e1 = Inr (Some docE1)"
  "matchedDoc (stub retrieved a1 a2) [docE1] decision_zzz = Inr None"
  "matchedDoc (stub retrieved a1 a2) [docE1] decision_array = Inr (Some docE1)"
  "matchedDoc (stub retrieved a1 a2) [docE1_absent] decision_e1 = Inr (Some docE1_absent)"
  "matchedDoc (stub retrieved a1 a2) [docE1_empty] decision_e1 = Inr (Some docE1_empty)"
  by (simp_all add: matchedDoc_def docE1_def docE1_absent_def docE1_empty_def
      decision_e1_def decision_zzz_def decision_array_def)

section \<open>Unresolved selections\<close>

text \<open>
  Claim C1, as amended: when the \<^verbatim>\<open>element_id\<close> of the parsed selection decision is a
  string that equals no element's \<^verbatim>\<open>element_id\<close> in the document array, step 7 does not
  fail. No document is matched, the table content is \<^verbatim>\<open>undefined\<close>, and the run
  continues into the reformat stage: the model is called a second time, with the
  reformatting prompt that carries the text \<^verbatim>\<open>undefined\<close> in place of the table, and the
  run ends as that stage ends.
\<close>

theorem unresolved_selection_continues:
  assumes "createStore cl = Inr ()"
    and "retriever_invoke cl (step1 docConfig) w = (Inr docs, w1)"
    and "llm_invoke cl (step4 docConfig (step3 docs)) w1 = (Inr response, w2)"
    and "JSON_parse cl response = Some result"
    and "js_get result ''element_id'' = Some (JStr s)"
    and "\<forall>doc \<in> set docArray. element_id (metadata doc) \<noteq> Some s"
  shows "matchedDoc cl docArray result = Inr None \<and>
         reportChain cl docArray docConfig w =
           chain_from_step8 cl [Retrieve (step1 docConfig), Complete (step4 docConfig (step3 docs))] None w2 \<and>
         calls (reportChain cl docArray docConfig w) =
           [Retrieve (step1 docConfig), Complete (step4 docConfig (step3 docs)),
            Complete (htmlFormattingTemplate_format None)] \<and>
         htmlFormattingTemplate_format None = htmlFormattingTemplate_format (Some ''undefined'')"
proof -
  have "find (\<lambda>doc. element_id (metadata doc) = Some s) docArray = None"
    using assms(6) by (simp add: find_None_iff)
  then have m: "matchedDoc cl docArray result = Inr None"
    by (simp add: matchedDoc_def assms(5) find_doc_string)
  then have "step7 cl docArray result = Inr None"
    by (simp add: step7_def)
  with assms(1-4) have r: "reportChain cl docArray docConfig w =
      chain_from_step8 cl [Retrieve (step1 docConfig), Complete (step4 docConfig (step3 docs))] None w2"
    by (rule reportChain_parsed)
  have "calls (reportChain cl docArray docConfig w) =
      [Retrieve (step1 docConfig), Complete (step4 docConfig (step3 docs)),
       Complete (htmlFormattingTemplate_format None)]"
    by (simp add: r calls_reformat)
  with m r undefined_in_prompt show ?thesis
    by (intro conjI)
qed

theorem unresolved_selection_continues_witness:
  "js_get decision_zzz ''element_id'' = Some (JStr ''zzz'') \<and>
   map (\<lambda>doc. element_id (metadata doc)) [docE0, docE1] = [Some ''e0'', Some ''e1''] \<and>
   matchedDoc (stub [candE1] answer_zzz answer_table) [docE0, docE1] decision_zzz = Inr None \<and>
   reportChain (stub [candE1] answer_zzz answer_table) [docE0, docE1] hood 0 =
     chain_from_step8 (stub [candE1] answer_zzz answer_table)
       [Retrieve (step1 hood), Complete (step4 hood (step3 [candE1]))] None 2 \<and>
   calls (reportChain (stub [candE1] answer_zzz answer_table) [docE0, docE1] hood 0) =
     [Retrieve (step1 hood), Complete (step4 hood (step3 [candE1])),
      Complete (htmlFormattingTemplate_format None)]"
proof -
  let ?cl = "stub [candE1] answer_zzz answer_table"
  have h1: "createStore ?cl = Inr ()"
    by (simp add: stub_simps)
  have h2: "retriever_invoke ?cl (step1 hood) 0 = (Inr [candE1], 1)"
    by (simp add: stub_simps)
  have h3: "llm_invoke ?cl (step4 hood (step3 [candE1])) 1 = (Inr answer_zzz, 2)"
    by (simp add: stub_simps)
  have h4: "JSON_parse ?cl answer_zzz = Some decision_zzz"
    by (simp add: stub_simps stub_parse_simps)
  have h5: "js_get decision_zzz ''element_id'' = Some (JStr ''zzz'')"
    by (simp add: decision_zzz_def)
  have h6: "\<forall>doc \<in> set [docE0, docE1]. element_id (metadata doc) \<noteq> Some ''zzz''"
    by (simp add: docE0_def docE1_def)
  have ids: "map (\<lambda>doc. element_id (metadata doc)) [docE0, docE1] = [Some ''e0'', Some ''e1'']"
    by (simp add: docE0_def docE1_def)
  show ?thesis
    using unresolved_selection_continues [OF h1 h2 h3 h4 h5 h6] h5 ids by blast
qed

text \<open>
  Claim C1 as stated fails: the model names the element \<^verbatim>\<open>zzz\<close>, the document array
  holds only \<^verbatim>\<open>e1\<close>, no document matches, and the run still calls the model with the
  reformatting prompt and returns a result.
\<close>

theorem unresolved_selection_counterexample:
  "JSON_parse (stub [candE1] answer_zzz answer_table) answer_zzz = Some decision_zzz \<and>
   js_get decision_zzz ''element_id'' = Some (JStr ''zzz'') \<and>
   map (\<lambda>doc. element_id (metadata doc)) [docE1] = [Some ''e1''] \<and>
   matchedDoc (stub [candE1] answer_zzz answer_table) [docE1] decision_zzz = Inr None \<and>
   outcome (reportChain (stub [candE1] answer_zzz answer_table) [docE1] hood 0) = Inr result_table \<and>
   calls (reportChain (stub [candE1] answer_zzz answer_table) [docE1] hood 0) =
     [Retrieve (step1 hood), Complete (step4 hood (step3 [candE1])),
      Complete (htmlFormattingTemplate_format None)]"
  by (simp add: stub_run stub_simps stub_parse_simps matchedDoc_stub step7_def outcome_def calls_def)
    (simp add: decision_zzz_def docE1_def)

section \<open>Missing source content\<close>

text \<open>
  Claim C2, as amended: when the selected element resolves but its \<^verbatim>\<open>text_as_html\<close> is
  absent or empty, the run does not fail before the reformat stage. The model is called
  a second time with the reformatting prompt, in which the content is the text
  \<^verbatim>\<open>undefined\<close> (absent) or the empty string (empty).
\<close>

theorem missing_content_continues:
  assumes "createStore cl = Inr ()"
    and "retriever_invoke cl (step1 docConfig) w = (Inr docs, w1)"
    and "llm_invoke cl (step4 docConfig (step3 docs)) w1 = (Inr response, w2)"
    and "JSON_parse cl response = Some result"
    and "matchedDoc cl docArray result = Inr (Some doc)"
    and "text_as_html (metadata doc) = None \<or> text_as_html (metadata doc) = Some []"
  shows "reportChain cl docArray docConfig w =
           chain_from_step8 cl [Retrieve (step1 docConfig), Complete (step4 docConfig (step3 docs))]
             (text_as_html (metadata doc)) w2 \<and>
         calls (reportChain cl docArray docConfig w) =
           [Retrieve (step1 docConfig), Complete (step4 docConfig (step3 docs)),
            Complete (htmlFormattingTemplate_format (text_as_html (metadata doc)))] \<and>
         (interpolate (text_as_html (metadata doc)) = ''undefined'' \<or>
          interpolate (text_as_html (metadata doc)) = [])"
proof -
  have "step7 cl docArray result = Inr (text_as_html (metadata doc))"
    using assms(5) by (simp add: step7_def)
  with assms(1-4) have r: "reportChain cl docArray docConfig w =
      chain_from_step8 cl [Retrieve (step1 docConfig), Complete (step4 docConfig (step3 docs))]
        (text_as_html (metadata doc)) w2"
    by (rule reportChain_parsed)
  have c: "calls (reportChain cl docArray docConfig w) =
      [Retrieve (step1 docConfig), Complete (step4 docConfig (step3 docs)),
       Complete (htmlFormattingTemplate_format (text_as_html (metadata doc)))]"
    by (simp add: r calls_reformat)
  have "interpolate (text_as_html (metadata doc)) = ''undefined'' \<or>
      interpolate (text_as_html (metadata doc)) = []"
    using assms(6) by (auto simp: interpolate_def)
  with r c show ?thesis
    by (intro conjI)
qed

theorem missing_content_continues_witness:
  "text_as_html (metadata docE1_absent) = None \<and>
   calls (reportChain (stub [candE1] answer_e1 answer_table) [docE1_absent] hood 0) =
     [Retrieve (step1 hood), Complete (step4 hood (step3 [candE1])),
      Complete (htmlFormattingTemplate_format (text_as_html (metadata docE1_absent)))] \<and>
   text_as_html (metadata docE1_empty) = Some [] \<and>
   calls (reportChain (stub [candE1] answer_e1 answer_table) [docE1_empty] hood 0) =
     [Retrieve (step1 hood), Complete (step4 hood (step3 [candE1])),
      Complete (htmlFormattingTemplate_format (text_as_html (metadata docE1_empty)))]"
proof -
  let ?cl = "stub [candE1] answer_e1 answer_table"
  have h1: "createStore ?cl = Inr ()"
    by (simp add: stub_simps)
  have h2: "retriever_invoke ?cl (step1 hood) 0 = (Inr [candE1], 1)"
    by (simp add: stub_simps)
  have h3: "llm_invoke ?cl (step4 hood (step3 [candE1])) 1 = (Inr answer_e1, 2)"
    by (simp add: stub_simps)
  have h4: "JSON_parse ?cl answer_e1 = Some decision_e1"
    by (simp add: stub_simps stub_parse_simps)
  have a5: "matchedDoc ?cl [docE1_absent] decision_e1 = Inr (Some docE1_absent)"
    by (simp add: matchedDoc_stub)
  have a6: "text_as_html (metadata docE1_absent) = None"
    by (simp add: docE1_absent_def)
  have e5: "matchedDoc ?cl [docE1_empty] decision_e1 = Inr (Some docE1_empty)"
    by (simp add: matchedDoc_stub)
  have e6: "text_as_html (metadata docE1_empty) = Some []"
    by (simp add: docE1_empty_def)
  show ?thesis
    using missing_content_continues [OF h1 h2 h3 h4 a5 disjI1 [OF a6]]
      missing_content_continues [OF h1 h2 h3 h4 e5 disjI2 [OF e6]] a6 e6
    by blast
qed

text \<open>
  Claim C2 as stated fails, for absent content and for empty content: the selected
  element resolves, the reformatting prompt is sent to the model, and the run returns a
  result.
\<close>

theorem missing_content_counterexample:
  "matchedDoc (stub [candE1] answer_e1 answer_table) [docE1_absent] decision_e1 = Inr (Some docE1_absent) \<and>
   text_as_html (metadata docE1_absent) = None \<and>
   outcome (reportChain (stub [candE1] answer_e1 answer_table) [docE1_absent] hood 0) = Inr result_table \<and>
   calls (reportChain (stub [candE1] answer_e1 answer_table) [docE1_absent] hood 0) =
     [Retrieve (step1 hood), Complete (step4 hood (step3 [candE1])),
      Complete (htmlFormattingTemplate_format None)] \<and>
   matchedDoc (stub [candE1] answer_e1 answer_table) [docE1_empty] decision_e1 = Inr (Some docE1_empty) \<and>
   text_as_html (metadata docE1_empty) = Some [] \<and>
   outcome (reportChain (stub [candE1] answer_e1 answer_table) [docE1_empty] hood 0) = Inr result_table \<and>
   calls (reportChain (stub [candE1] answer_e1 answer_table) [docE1_empty] hood 0) =
     [Retrieve (step1 hood), Complete (step4 hood (step3 [candE1])),
      Complete (htmlFormattingTemplate_format (Some []))]"
  by (simp add: stub_run stub_parse_simps matchedDoc_stub step7_def outcome_def calls_def)
    (simp add: docE1_absent_def docE1_empty_def)

section \<open>The returned value\<close>

text \<open>
  Claim C3, evaluated on end-to-end scenario A: the element \<^verbatim>\<open>e1\<close> is retrieved, selected
  and resolved to its table markup, and the reformatting model answers as instructed.
  The run succeeds, and the value it returns is the parsed answer of the model: it has
  \<^verbatim>\<open>reformatted_content\<close> and no \<^verbatim>\<open>original_content\<close>.
\<close>

theorem scenario_A_lacks_original_content:
  "step7 (stub [candE1] answer_e1 answer_table) [docE1] decision_e1 = Inr (Some table_markup) \<and>
   outcome (reportChain (stub [candE1] answer_e1 answer_table) [docE1] hood 0) = Inr result_table \<and>
   js_get result_table ''reformatted_content'' = Some (JStr table_markup) \<and>
   js_get result_table ''original_content'' = None"
  by (simp add: stub_run stub_parse_simps matchedDoc_stub step7_def outcome_def)
    (simp add: result_table_def docE1_def)

section \<open>Empty retrieval\<close>

text \<open>
  Claim C4, as amended: when retrieval returns zero candidates the run does not fail at
  the retrieval stage. It goes on to the selection stage with an empty list of
  documents: the first two outbound calls are the retrieval and a model call whose
  disambiguation prompt has an empty documents section.
\<close>

theorem empty_retrieval_continues:
  assumes "createStore cl = Inr ()"
    and "retriever_invoke cl (step1 docConfig) w = (Inr [], w1)"
  shows "reportChain cl docArray docConfig w =
           chain_from_step4 cl docArray docConfig [Retrieve (step1 docConfig)] [] w1 \<and>
         take 2 (calls (reportChain cl docArray docConfig w)) =
           [Retrieve (step1 docConfig), Complete (step4 docConfig [])]"
proof -
  have r: "reportChain cl docArray docConfig w =
      chain_from_step4 cl docArray docConfig [Retrieve (step1 docConfig)] [] w1"
    using assms by (rule reportChain_retrieved)
  have "step3 [] = []"
    by (simp add: step3_def)
  then have "take 2 (calls (reportChain cl docArray docConfig w)) =
      [Retrieve (step1 docConfig), Complete (step4 docConfig [])]"
    using calls_select_prefix [of "[Retrieve (step1 docConfig)]" cl docArray docConfig "[]" w1]
    by (simp add: r numeral_2_eq_2)
  with r show ?thesis
    by (intro conjI)
qed

theorem empty_retrieval_continues_witness:
  "retriever_invoke (stub [] answer_e1 answer_table) (step1 hood) 0 = (Inr [], 1) \<and>
   take 2 (calls (reportChain (stub [] answer_e1 answer_table) [docE1] hood 0)) =
     [Retrieve (step1 hood), Complete (step4 hood [])]"
proof -
  let ?cl = "stub [] answer_e1 answer_table"
  have h1: "createStore ?cl = Inr ()"
    by (simp add: stub_simps)
  have h2: "retriever_invoke ?cl (step1 hood) 0 = (Inr [], 1)"
    by (simp add: stub_simps)
  show ?thesis
    using empty_retrieval_continues [OF h1 h2, of "[docE1]"] h2 by blast
qed

text \<open>
  Claim C4 as stated fails: retrieval returns no candidate, yet the model is called
  twice and the run returns a result.
\<close>

theorem empty_retrieval_counterexample:
  "retriever_invoke (stub [] answer_e1 answer_table) (step1 hood) 0 = (Inr [], 1) \<and>
   outcome (reportChain (stub [] answer_e1 answer_table) [docE1] hood 0) = Inr result_table \<and>
   calls (reportChain (stub [] answer_e1 answer_table) [docE1] hood 0) =
     [Retrieve (step1 hood), Complete (step4 hood (step3 [])),
      Complete (htmlFormattingTemplate_format (Some table_markup))]"
  by (simp add: stub_run stub_simps stub_parse_simps matchedDoc_stub step7_def outcome_def calls_def)
    (simp add: docE1_def)

section \<open>The query formatter\<close>

text \<open>
  Claim C5, as amended: for every \<^verbatim>\<open>DocConfig\<close> the formatted search query is a non-empty
  string that contains the company name, the report type and the document type verbatim.
  The document name is not part of the search template.
\<close>

theorem query_contains_three_fields:
  "step1 docConfig \<noteq> [] \<and>
   contains (companyName docConfig) (step1 docConfig) \<and>
   contains (reportType docConfig) (step1 docConfig) \<and>
   contains (docType docConfig) (step1 docConfig)"
proof -
  let ?c = "companyName docConfig" and ?r = "reportType docConfig" and ?d = "docType docConfig"
  have q: "step1 docConfig = ''What is '' @ ?c @ ''s '' @ ?r @ '' for their '' @ ?d @ '' statement?''"
    by (simp add: step1_def searchTemplate_format_def)
  have "step1 docConfig \<noteq> []" by (simp add: q)
  moreover have "contains ?c (step1 docConfig)"
    unfolding q by (rule contains_append_mid)
  moreover have "step1 docConfig = (''What is '' @ ?c @ ''s '') @ ?r @ ('' for their '' @ ?d @ '' statement?'')"
    by (simp add: q)
  then have "contains ?r (step1 docConfig)"
    by (simp only: contains_append_mid)
  moreover have "step1 docConfig = (''What is '' @ ?c @ ''s '' @ ?r @ '' for their '') @ ?d @ '' statement?''"
    by (simp add: q)
  then have "contains ?d (step1 docConfig)"
    by (simp only: contains_append_mid)
  ultimately show ?thesis by blast
qed

text \<open>
  Claim C5 as stated fails: for a configuration whose four fields are all non-empty, the
  query does not contain the document name.
\<close>

theorem query_omits_docName_counterexample:
  "docName hood \<noteq> [] \<and> companyName hood \<noteq> [] \<and> docType hood \<noteq> [] \<and> reportType hood \<noteq> [] \<and>
   step1 hood = ''What is Robinhoods Balance Sheet for their 10-Q statement?'' \<and>
   \<not> contains (docName hood) (step1 hood)"
  by (simp add: hood_def step1_def searchTemplate_format_def)

section \<open>Failure of the selection parse\<close>

text \<open>
  Claim C6, as amended: when the disambiguation model's response is not valid JSON, the
  run fails in the selection stage: the outcome is the \<^verbatim>\<open>SyntaxError\<close> that \<^verbatim>\<open>JSON.parse\<close>
  throws in step 6 (the chain has no error class of its own), the model has been called
  exactly once, and no element is matched, neither the first candidate nor any other.
\<close>

theorem selection_parse_failure:
  assumes "createStore cl = Inr ()"
    and "retriever_invoke cl (step1 docConfig) w = (Inr docs, w1)"
    and "llm_invoke cl (step4 docConfig (step3 docs)) w1 = (Inr response, w2)"
    and "JSON_parse cl response = None"
  shows "reportChain cl docArray docConfig w =
           (Inl (SyntaxError response),
            [Retrieve (step1 docConfig), Complete (step4 docConfig (step3 docs))], w2)"
  using assms by (simp add: reportChain_retrieved select_unparsed)

theorem selection_parse_failure_witness:
  "JSON_parse (stub [candE1] answer_prose answer_table) answer_prose = None \<and>
   reportChain (stub [candE1] answer_prose answer_table) [docE1] hood 0 =
     (Inl (SyntaxError answer_prose),
      [Retrieve (step1 hood), Complete (step4 hood (step3 [candE1]))], 2)"
  using selection_parse_failure [of "stub [candE1] answer_prose answer_table" hood 0 "[candE1]" 1
      answer_prose 2 "[docE1]"]
  by (simp add: stub_simps stub_parse_simps)

text \<open>
  Claim C6 as stated fails: the error does not name the selection stage. The same prose
  answer fails the parse of step 6 in one run and the final parse in another, and both
  runs end with the same \<^verbatim>\<open>SyntaxError\<close>.
\<close>

theorem selection_error_untyped_counterexample:
  "JSON_parse (stub [candE1] answer_prose answer_table) answer_prose = None \<and>
   outcome (reportChain (stub [candE1] answer_prose answer_table) [docE1] hood 0) =
     Inl (SyntaxError answer_prose) \<and>
   calls (reportChain (stub [candE1] answer_prose answer_table) [docE1] hood 0) =
     [Retrieve (step1 hood), Complete (step4 hood (step3 [candE1]))] \<and>
   outcome (reportChain (stub [candE1] answer_e1 answer_prose) [docE1] hood 0) =
     Inl (SyntaxError answer_prose) \<and>
   calls (reportChain (stub [candE1] answer_e1 answer_prose) [docE1] hood 0) =
     [Retrieve (step1 hood), Complete (step4 hood (step3 [candE1])),
      Complete (htmlFormattingTemplate_format (Some table_markup))]"
  by (simp add: stub_run stub_simps stub_parse_simps matchedDoc_stub step7_def outcome_def calls_def)
    (simp add: docE1_def)

section \<open>Resolution against the document array\<close>

text \<open>
  Claim C7, as amended: when the \<^verbatim>\<open>element_id\<close> the model returns is a string, it is
  resolved against the full document array (the retrieved candidates play no part) by
  exact equality with each document's \<^verbatim>\<open>element_id\<close>, and the first matching element in
  array order is selected; its \<^verbatim>\<open>text_as_html\<close> goes into the reformat stage.
\<close>

theorem resolution_first_exact_match:
  assumes "createStore cl = Inr ()"
    and "retriever_invoke cl (step1 docConfig) w = (Inr docs, w1)"
    and "llm_invoke cl (step4 docConfig (step3 docs)) w1 = (Inr response, w2)"
    and "JSON_parse cl response = Some result"
    and "js_get result ''element_id'' = Some (JStr s)"
  shows "matchedDoc cl docArray result =
           Inr (find (\<lambda>doc. element_id (metadata doc) = Some s) docArray) \<and>
         (\<forall>doc. matchedDoc cl docArray result = Inr (Some doc) \<longrightarrow>
            (\<exists>i < length docArray. docArray ! i = doc \<and> element_id (metadata doc) = Some s \<and>
               (\<forall>j < i. element_id (metadata (docArray ! j)) \<noteq> Some s))) \<and>
         reportChain cl docArray docConfig w =
           chain_from_step8 cl [Retrieve (step1 docConfig), Complete (step4 docConfig (step3 docs))]
             (case find (\<lambda>doc. element_id (metadata doc) = Some s) docArray of
                None \<Rightarrow> None
              | Some doc \<Rightarrow> text_as_html (metadata doc)) w2"
proof -
  have m: "matchedDoc cl docArray result =
      Inr (find (\<lambda>doc. element_id (metadata doc) = Some s) docArray)"
    by (simp add: matchedDoc_def assms(5) find_doc_string)
  have f: "\<forall>doc. matchedDoc cl docArray result = Inr (Some doc) \<longrightarrow>
      (\<exists>i < length docArray. docArray ! i = doc \<and> element_id (metadata doc) = Some s \<and>
         (\<forall>j < i. element_id (metadata (docArray ! j)) \<noteq> Some s))"
    unfolding m sum.inject find_Some_iff by blast
  have "step7 cl docArray result =
      Inr (case find (\<lambda>doc. element_id (metadata doc) = Some s) docArray of
             None \<Rightarrow> None
           | Some doc \<Rightarrow> text_as_html (metadata doc))"
    by (simp add: step7_def m split: option.splits)
  with assms(1-4) have r: "reportChain cl docArray docConfig w =
      chain_from_step8 cl [Retrieve (step1 docConfig), Complete (step4 docConfig (step3 docs))]
        (case find (\<lambda>doc. element_id (metadata doc) = Some s) docArray of
           None \<Rightarrow> None
         | Some doc \<Rightarrow> text_as_html (metadata doc)) w2"
    by (rule reportChain_parsed)
  from m f r show ?thesis
    by (intro conjI)
qed

text \<open>
  The witness: nothing is retrieved, the model names \<^verbatim>\<open>e1\<close>, and the document array
  holds \<^verbatim>\<open>e0\<close>, then \<^verbatim>\<open>e1\<close> with its table, then a second \<^verbatim>\<open>e1\<close> with empty content. The
  first \<^verbatim>\<open>e1\<close> is selected.
\<close>

theorem resolution_first_exact_match_witness:
  "js_get decision_e1 ''element_id'' = Some (JStr ''e1'') \<and>
   retriever_invoke (stub [] answer_e1 answer_table) (step1 hood) 0 = (Inr [], 1) \<and>
   matchedDoc (stub [] answer_e1 answer_table) [docE0, docE1, docE1_empty] decision_e1 =
     Inr (Some docE1) \<and>
   calls (reportChain (stub [] answer_e1 answer_table) [docE0, docE1, docE1_empty] hood 0) ! 2 =
     Complete (htmlFormattingTemplate_format (Some table_markup))"
proof -
  let ?cl = "stub [] answer_e1 answer_table"
  let ?docArray = "[docE0, docE1, docE1_empty]"
  have h1: "createStore ?cl = Inr ()"
    by (simp add: stub_simps)
  have h2: "retriever_invoke ?cl (step1 hood) 0 = (Inr [], 1)"
    by (simp add: stub_simps)
  have h3: "llm_invoke ?cl (step4 hood (step3 [])) 1 = (Inr answer_e1, 2)"
    by (simp add: stub_simps)
  have h4: "JSON_parse ?cl answer_e1 = Some decision_e1"
    by (simp add: stub_simps stub_parse_simps)
  have h5: "js_get decision_e1 ''element_id'' = Some (JStr ''e1'')"
    by (simp add: decision_e1_def)
  have f: "find (\<lambda>doc. element_id (metadata doc) = Some ''e1'') ?docArray = Some docE1"
    by (simp add: docE0_def docE1_def docE1_empty_def)
  have t: "text_as_html (metadata docE1) = Some table_markup"
    by (simp add: docE1_def)
  note inst = resolution_first_exact_match [OF h1 h2 h3 h4 h5, of ?docArray]
  have "matchedDoc ?cl ?docArray decision_e1 = Inr (Some docE1)"
    using inst f by simp
  moreover have "calls (reportChain ?cl ?docArray hood 0) ! 2 =
      Complete (htmlFormattingTemplate_format (Some table_markup))"
    using inst f t by (simp add: calls_reformat)
  ultimately show ?thesis
    using h5 h2 by blast
qed

text \<open>
  Claim C7 as stated fails: the comparison is loose equality. The model returns the
  array \<^verbatim>\<open>["e1"]\<close> as \<^verbatim>\<open>element_id\<close>; it is not equal to the string \<^verbatim>\<open>e1\<close>, yet the element
  \<^verbatim>\<open>e1\<close> is selected and its table goes into the reformat stage.
\<close>

theorem loose_match_counterexample:
  "JSON_parse (stub [candE1] answer_array answer_table) answer_array = Some decision_array \<and>
   js_get decision_array ''element_id'' = Some (JArr [JStr ''e1'']) \<and>
   element_id (metadata docE1) = Some ''e1'' \<and>
   \<not> exact_eq (element_id (metadata docE1)) (js_get decision_array ''element_id'') \<and>
   matchedDoc (stub [candE1] answer_array answer_table) [docE1] decision_array = Inr (Some docE1) \<and>
   calls (reportChain (stub [candE1] answer_array answer_table) [docE1] hood 0) =
     [Retrieve (step1 hood), Complete (step4 hood (step3 [candE1])),
      Complete (htmlFormattingTemplate_format (Some table_markup))]"
  by (simp add: stub_run stub_simps stub_parse_simps matchedDoc_stub step7_def calls_def)
    (simp add: decision_array_def docE1_def)

section \<open>Failure of the final parse\<close>

text \<open>
  Claim C8, as amended: a run that has received the reformatting model's output fails
  if and only if that output is not valid JSON; the failure is the \<^verbatim>\<open>SyntaxError\<close> of the
  final \<^verbatim>\<open>JSON.parse\<close> and no result is returned. Any valid JSON value is returned as it
  is.
\<close>

theorem final_parse_failure_iff:
  assumes "createStore cl = Inr ()"
    and "retriever_invoke cl (step1 docConfig) w = (Inr docs, w1)"
    and "llm_invoke cl (step4 docConfig (step3 docs)) w1 = (Inr response, w2)"
    and "JSON_parse cl response = Some result"
    and "step7 cl docArray result = Inr tableContent"
    and "llm_invoke cl (htmlFormattingTemplate_format tableContent) w2 = (Inr r, w3)"
  shows "(isl (outcome (reportChain cl docArray docConfig w)) \<longleftrightarrow> JSON_parse cl r = None) \<and>
         outcome (reportChain cl docArray docConfig w) =
           (case JSON_parse cl r of None \<Rightarrow> Inl (SyntaxError r) | Some jsonResult \<Rightarrow> Inr jsonResult)"
proof -
  have "reportChain cl docArray docConfig w =
      chain_from_step8 cl [Retrieve (step1 docConfig), Complete (step4 docConfig (step3 docs))]
        tableContent w2"
    using assms(1-5) by (rule reportChain_parsed)
  then have o: "outcome (reportChain cl docArray docConfig w) =
      (case JSON_parse cl r of None \<Rightarrow> Inl (SyntaxError r) | Some jsonResult \<Rightarrow> Inr jsonResult)"
    using reformat_answered [OF assms(6)] by simp
  then have "isl (outcome (reportChain cl docArray docConfig w)) \<longleftrightarrow> JSON_parse cl r = None"
    by (simp split: option.splits)
  with o show ?thesis
    by (intro conjI)
qed

theorem final_parse_failure_iff_witness:
  "JSON_parse (stub [candE1] answer_e1 answer_prose) answer_prose = None \<and>
   outcome (reportChain (stub [candE1] answer_e1 answer_prose) [docE1] hood 0) =
     Inl (SyntaxError answer_prose)"
proof -
  let ?cl = "stub [candE1] answer_e1 answer_prose"
  have h1: "createStore ?cl = Inr ()"
    by (simp add: stub_simps)
  have h2: "retriever_invoke ?cl (step1 hood) 0 = (Inr [candE1], 1)"
    by (simp add: stub_simps)
  have h3: "llm_invoke ?cl (step4 hood (step3 [candE1])) 1 = (Inr answer_e1, 2)"
    by (simp add: stub_simps)
  have h4: "JSON_parse ?cl answer_e1 = Some decision_e1"
    by (simp add: stub_simps stub_parse_simps)
  have h5: "step7 ?cl [docE1] decision_e1 = Inr (Some table_markup)"
    by (simp add: step7_def matchedDoc_stub) (simp add: docE1_def)
  have h6: "llm_invoke ?cl (htmlFormattingTemplate_format (Some table_markup)) 2 =
      (Inr answer_prose, 3)"
    by (simp add: stub_simps)
  have n: "JSON_parse ?cl answer_prose = None"
    by (simp add: stub_simps stub_parse_simps)
  show ?thesis
    using final_parse_failure_iff [OF h1 h2 h3 h4 h5 h6] n by simp
qed

text \<open>
  Claim C8 as stated fails: the reformatting model answers with the empty object, which
  is valid JSON and lacks \<^verbatim>\<open>reformatted_content\<close>; the run does not fail and returns the
  empty object.
\<close>

theorem missing_field_counterexample:
  "JSON_parse (stub [candE1] answer_e1 answer_empty_object) answer_empty_object = Some (JObj []) \<and>
   js_get (JObj [] :: unit json) ''reformatted_content'' = None \<and>
   outcome (reportChain (stub [candE1] answer_e1 answer_empty_object) [docE1] hood 0) = Inr (JObj [])"
  by (simp add: stub_run stub_simps stub_parse_simps matchedDoc_stub step7_def outcome_def)

section \<open>Successive runs\<close>

text \<open>
  Claim C9: over deterministic stubbed clients, two successive invocations on the same
  document array and the same configuration, the second starting in the state of the
  outside world that the first one left, produce the same outcome (the same result or
  the same error) and make the same outbound calls.
\<close>

theorem successive_runs_identical:
  assumes "deterministic cl"
  shows "outcome (reportChain cl docArray docConfig (world (reportChain cl docArray docConfig w))) =
           outcome (reportChain cl docArray docConfig w) \<and>
         calls (reportChain cl docArray docConfig (world (reportChain cl docArray docConfig w))) =
           calls (reportChain cl docArray docConfig w)"
  using reportChain_deterministic [OF assms] by blast

theorem successive_runs_identical_witness:
  "deterministic (stub [candE1] answer_e1 answer_table) \<and>
   world (reportChain (stub [candE1] answer_e1 answer_table) [docE1] hood 0) = 3 \<and>
   outcome (reportChain (stub [candE1] answer_e1 answer_table) [docE1] hood 3) =
     outcome (reportChain (stub [candE1] answer_e1 answer_table) [docE1] hood 0) \<and>
   outcome (reportChain (stub [candE1] answer_e1 answer_table) [docE1] hood 0) = Inr result_table"
proof -
  let ?cl = "stub [candE1] answer_e1 answer_table"
  have d: "deterministic ?cl"
    by (rule stub_deterministic)
  have w: "world (reportChain ?cl [docE1] hood 0) = 3"
    by (simp add: stub_run stub_parse_simps matchedDoc_stub step7_def world_def)
  have o: "outcome (reportChain ?cl [docE1] hood 0) = Inr result_table"
    by (simp add: stub_run stub_parse_simps matchedDoc_stub step7_def outcome_def)
  show ?thesis
    using successive_runs_identical [OF d, of "[docE1]" hood 0] d w o by simp
qed

section \<open>The document name\<close>

text \<open>
  Claim C10: \<^verbatim>\<open>docName\<close> does not influence the run. Two configurations that agree on
  the other three fields give the same outcome, the same outbound calls and the same
  final state, for the same document array and the same clients.
\<close>

theorem docName_not_used:
  assumes "companyName c1 = companyName c2"
    and "docType c1 = docType c2"
    and "reportType c1 = reportType c2"
  shows "reportChain cl docArray c1 w = reportChain cl docArray c2 w"
proof -
  have q: "step1 c1 = step1 c2"
    using assms by (simp add: step1_def)
  have p: "\<And>formattedDocs. step4 c1 formattedDocs = step4 c2 formattedDocs"
    using assms by (simp add: step4_def)
  have s: "chain_from_step4 cl docArray c1 = chain_from_step4 cl docArray c2"
    by (intro ext) (simp add: chain_from_step4_def p)
  show ?thesis
    unfolding reportChain_def q s by (rule refl)
qed

theorem docName_not_used_witness:
  "docName (hood\<lparr>docName := ''other-10K.pdf.json''\<rparr>) \<noteq> docName hood \<and>
   reportChain (stub [candE1] answer_e1 answer_table) [docE1] (hood\<lparr>docName := ''other-10K.pdf.json''\<rparr>) 0 =
   reportChain (stub [candE1] answer_e1 answer_table) [docE1] hood 0"
  using docName_not_used [of "hood\<lparr>docName := ''other-10K.pdf.json''\<rparr>" hood
      "stub [candE1] answer_e1 answer_table" "[docE1]" 0]
  by (simp add: hood_def)

end
